theory Spec2Isabelle
  imports Main "HOL-Library.Sublist"
begin

section \<open>Errors\<close>

text \<open>
  Every exception the modelled code raises or catches is an instance of Python's
  \<^verbatim>\<open>Exception\<close>; a raise is the left injection of a sum, or \<open>Some e\<close> for a
  procedure that returns nothing. \<open>ProviderError\<close> stands for whatever a collaborator
  raises (the spawned process, the transport, the session, the model endpoint).
  Signals outside \<^verbatim>\<open>Exception\<close> (task cancellation, interpreter exit) are not
  values of this type.
\<close>

datatype error =
    ValueError string
  | RuntimeError string
  | KeyError string
  | TypeError string
  | AttributeError string
  | ValidationError string
  | ProviderError string

text \<open>The text \<^verbatim>\<open>str(e)\<close> puts into an f-string; a \<^verbatim>\<open>KeyError\<close> shows its key quoted.\<close>

definition quoted :: "string \<Rightarrow> string" where
  "quoted s = [CHR 0x27] @ s @ [CHR 0x27]"

text \<open>The message of the \<^verbatim>\<open>AttributeError\<close> for a missing attribute of an object.\<close>

definition no_attribute :: "string \<Rightarrow> string \<Rightarrow> error" where
  "no_attribute cls attr =
     AttributeError (quoted cls @ '' object has no attribute '' @ quoted attr)"

fun str_of_error :: "error \<Rightarrow> string" where
  "str_of_error (ValueError m) = m"
| "str_of_error (RuntimeError m) = m"
| "str_of_error (KeyError k) = quoted k"
| "str_of_error (TypeError m) = m"
| "str_of_error (AttributeError m) = m"
| "str_of_error (ValidationError m) = m"
| "str_of_error (ProviderError m) = m"

section \<open>Tools (src/app/mcp/server.py, class Tool)\<close>

text \<open>
  The schema type \<open>'sch\<close> and the argument type \<open>'a\<close> are left open:
  \<^verbatim>\<open>jsonschema.validate\<close> is a library function and enters as the parameter
  \<open>validate\<close>, which returns the exception it raises, if any.
\<close>

record 'sch Tool =
  name :: string
  description :: string
  input_schema :: "'sch"

definition validate_tool_call ::
  "('a \<Rightarrow> 'sch \<Rightarrow> error option) \<Rightarrow> 'sch Tool \<Rightarrow> 'a \<Rightarrow> error option" where
  "validate_tool_call validate tool arguments = validate arguments (input_schema tool)"

section \<open>The provider session and its responses\<close>

text \<open>
  A tool response carries a list of content items, of which only text items have the
  attribute \<^verbatim>\<open>text\<close>. \<open>Plain\<close> is a response object without the attribute
  \<^verbatim>\<open>content\<close>, such as the string a test stub returns.
\<close>

datatype content_item = TextContent string | ImageContent | EmbeddedResource

datatype call_result = CallToolResult "content_item list" | Plain string

text \<open>What \<^verbatim>\<open>execute_tool\<close> can return: parsed JSON, text, the response itself, or \<^verbatim>\<open>None\<close>.\<close>

datatype 'j py_value = Json 'j | Text string | Result call_result | PyNone

text \<open>An item of the iteration over the \<^verbatim>\<open>list_tools\<close> response.\<close>

datatype 'sch response_item = Tuple string "'sch Tool list" | NotTuple

text \<open>
  The session object holds what the provider answers: \<open>call_tool_result k\<close> is the
  outcome of the call made when \<open>k\<close> calls have been made before, and \<open>call_count\<close>
  counts the calls, as a test double does.
\<close>

record ('a, 'sch) ClientSession =
  initialize_result :: "error option"
  list_tools_result :: "error + 'sch response_item list"
  call_tool_result :: "nat \<Rightarrow> string \<Rightarrow> 'a \<Rightarrow> error + call_result"
  call_count :: nat

section \<open>MCPServer (src/app/mcp/server.py)\<close>

datatype resource = StdioTransport | SessionContext

text \<open>
  An entry of the \<^verbatim>\<open>AsyncExitStack\<close>: the context entered and the exception its exit
  raises, if any. The head of the list is the context entered last.
\<close>

type_synonym exit_stack = "(resource \<times> error option) list"

datatype cfg_value = Str string | StrList "string list" | Dict "(string \<times> string) list" | Null

type_synonym config = "string \<rightharpoonup> cfg_value"

record ('a, 'sch) MCPServer =
  server_name :: string
  config :: config
  stdio_context :: "unit option"
  session :: "('a, 'sch) ClientSession option"
  tools :: "'sch Tool list"
  exit_stack :: exit_stack

text \<open>The constructor \<^verbatim>\<open>MCPServer.__init__\<close>.\<close>

definition new_MCPServer :: "string \<Rightarrow> config \<Rightarrow> ('a, 'sch) MCPServer" where
  "new_MCPServer nm cfg =
     \<lparr>server_name = nm, config = cfg, stdio_context = None, session = None,
      tools = [], exit_stack = []\<rparr>"

subsection \<open>execute_tool\<close>

text \<open>
  The extraction of the content inside the \<^verbatim>\<open>try\<close> block: a first item without the
  attribute \<^verbatim>\<open>text\<close> raises \<^verbatim>\<open>AttributeError\<close>; \<open>json_loads\<close> is
  \<^verbatim>\<open>json.loads\<close>, \<open>None\<close> where it raises \<^verbatim>\<open>JSONDecodeError\<close>.
\<close>

definition extract_content :: "(string \<Rightarrow> 'j option) \<Rightarrow> call_result \<Rightarrow> error + 'j py_value" where
  "extract_content json_loads result =
     (case result of
        Plain s \<Rightarrow> Inr (Result result)
      | CallToolResult [] \<Rightarrow> Inr (Result result)
      | CallToolResult (TextContent content # _) \<Rightarrow>
          (case json_loads content of Some j \<Rightarrow> Inr (Json j) | None \<Rightarrow> Inr (Text content))
      | CallToolResult (ImageContent # _) \<Rightarrow>
          Inl (no_attribute ''ImageContent'' ''text'')
      | CallToolResult (EmbeddedResource # _) \<Rightarrow>
          Inl (no_attribute ''EmbeddedResource'' ''text''))"

text \<open>One pass through the \<^verbatim>\<open>try\<close> block: the provider call, then the extraction.\<close>

definition attempt_once ::
  "(string \<Rightarrow> 'j option) \<Rightarrow> ('a, 'sch) ClientSession \<Rightarrow> string \<Rightarrow> 'a \<Rightarrow> error + 'j py_value" where
  "attempt_once json_loads s tool_name arguments =
     (case call_tool_result s (call_count s) tool_name arguments of
        Inl e \<Rightarrow> Inl e
      | Inr result \<Rightarrow> extract_content json_loads result)"

text \<open>The attempt made when \<open>j\<close> attempts have been made since the session was as in \<open>s\<close>.\<close>

definition attempt_at ::
  "(string \<Rightarrow> 'j option) \<Rightarrow> ('a, 'sch) ClientSession \<Rightarrow> string \<Rightarrow> 'a \<Rightarrow> nat
     \<Rightarrow> error + 'j py_value" where
  "attempt_at json_loads s tool_name arguments j =
     attempt_once json_loads (s\<lparr>call_count := call_count s + j\<rparr>) tool_name arguments"

text \<open>
  The \<^verbatim>\<open>while attempt < retries\<close> loop. The session is returned with its call
  count advanced. The sleep between attempts changes no state and is not shown.
  Leaving the loop by its condition falls off the end of the function, which returns
  \<^verbatim>\<open>None\<close>.
\<close>

function retry_loop ::
  "(string \<Rightarrow> 'j option) \<Rightarrow> ('a, 'sch) ClientSession \<Rightarrow> string \<Rightarrow> 'a \<Rightarrow> int \<Rightarrow> nat
     \<Rightarrow> (error + 'j py_value) \<times> ('a, 'sch) ClientSession" where
  "retry_loop json_loads s tool_name arguments retries attempt =
     (if int attempt < retries then
        (let s' = s\<lparr>call_count := Suc (call_count s)\<rparr> in
         case attempt_once json_loads s tool_name arguments of
           Inr v \<Rightarrow> (Inr v, s')
         | Inl e \<Rightarrow>
             (if int (Suc attempt) < retries
              then retry_loop json_loads s' tool_name arguments retries (Suc attempt)
              else (Inl e, s')))
      else (Inr PyNone, s))"
  by pat_completeness auto
termination
  by (relation "measure (\<lambda>(j, s, n, a, retries, attempt). nat (retries - int attempt))") auto

declare retry_loop.simps [simp del]

definition execute_tool ::
  "('a \<Rightarrow> 'sch \<Rightarrow> error option) \<Rightarrow> (string \<Rightarrow> 'j option) \<Rightarrow> ('a, 'sch) MCPServer
     \<Rightarrow> string \<Rightarrow> 'a \<Rightarrow> int \<Rightarrow> (error + 'j py_value) \<times> ('a, 'sch) MCPServer" where
  "execute_tool validate json_loads srv tool_name arguments retries =
     (case session srv of
        None \<Rightarrow> (Inl (RuntimeError (''Server '' @ server_name srv @ '' not initialized'')), srv)
      | Some s \<Rightarrow>
          (case find (\<lambda>t. name t = tool_name) (tools srv) of
             None \<Rightarrow>
               (Inl (ValueError (''Tool '' @ tool_name @ '' not found in server ''
                                  @ server_name srv @ '' tools.'')), srv)
           | Some tool \<Rightarrow>
               (case validate_tool_call validate tool arguments of
                  Some e \<Rightarrow> (Inl e, srv)
                | None \<Rightarrow>
                    (let (r, s') = retry_loop json_loads s tool_name arguments retries 0
                     in (r, srv\<lparr>session := Some s'\<rparr>)))))"

text \<open>The number of provider calls a server's session has seen; none without a session.\<close>

definition provider_calls :: "('a, 'sch) MCPServer \<Rightarrow> nat" where
  "provider_calls srv = (case session srv of None \<Rightarrow> 0 | Some s \<Rightarrow> call_count s)"

subsection \<open>The exit stack and cleanup\<close>

text \<open>
  The effects on the world outside the server object: a context entered, a context's
  exit called, and a call of \<^verbatim>\<open>cleanup\<close>. Logging is not part of the model.
\<close>

datatype event = Entered resource | Exited resource | CleanupCalled

text \<open>
  \<^verbatim>\<open>AsyncExitStack.__aexit__\<close>: every entry is popped and its exit called, the one
  entered last first; an exit that raises does not stop the others, and its exception
  replaces the pending one. \<open>pending\<close> is the exception the stack is left with
  (\<open>None\<close> for \<^verbatim>\<open>aclose()\<close>); the result is the exception that propagates.
\<close>

fun unwind :: "exit_stack \<Rightarrow> error option \<Rightarrow> error option \<times> event list" where
  "unwind [] pending = (pending, [])"
| "unwind ((r, raised) # rest) pending =
     (let (err, tr) = unwind rest (case raised of Some e \<Rightarrow> Some e | None \<Rightarrow> pending)
      in (err, Exited r # tr))"

text \<open>
  \<^verbatim>\<open>cleanup\<close>: the \<^verbatim>\<open>try\<close> block closes the exit stack and then clears the
  session; an exception of the close skips the rest of the block and is caught by
  \<^verbatim>\<open>except Exception\<close>. The lock is taken and released within the call and is
  not shown. The first component is the exception that leaves the function.
\<close>

definition cleanup ::
  "('a, 'sch) MCPServer \<Rightarrow> error option \<times> ('a, 'sch) MCPServer \<times> event list" where
  "cleanup srv =
     (let (raised, tr) = unwind (exit_stack srv) None;
          srv1 = srv\<lparr>exit_stack := []\<rparr>
      in case raised of
           Some e \<Rightarrow> (None, srv1, CleanupCalled # tr)
         | None \<Rightarrow> (None, srv1\<lparr>session := None, stdio_context := None\<rparr>, CleanupCalled # tr))"

subsection \<open>initialize\<close>

text \<open>
  What the operating system and the protocol library do for one provider:
  \<open>which_npx\<close> is \<^verbatim>\<open>shutil.which("npx")\<close>; \<open>stdio_client\<close> is the entry into the
  transport context (spawn and handshake), which raises or yields a transport whose
  exit raises what is given; \<open>client_session\<close> likewise for the session context.
\<close>

record ('a, 'sch) environment =
  which_npx :: "string option"
  stdio_client :: "error + error option"
  client_session :: "error + (('a, 'sch) ClientSession \<times> error option)"

definition resolve_command :: "('a, 'sch) environment \<Rightarrow> config \<Rightarrow> error + cfg_value" where
  "resolve_command env cfg =
     (case cfg ''command'' of
        None \<Rightarrow> Inl (KeyError ''command'')
      | Some c \<Rightarrow>
          (let command =
                 (if c = Str ''npx''
                  then (case which_npx env of None \<Rightarrow> Null | Some path \<Rightarrow> Str path)
                  else c)
           in if command = Null
              then Inl (ValueError ''The command must be a valid string and cannot be None.'')
              else Inr command))"

text \<open>
  The \<^verbatim>\<open>try\<close> block of \<^verbatim>\<open>initialize\<close>; the session is stored last. Before it,
  the launch parameters are built from the configuration: a missing key raises
  \<^verbatim>\<open>KeyError\<close>; the validation of their types by the library is not shown.
\<close>

definition connect ::
  "('a, 'sch) environment \<Rightarrow> ('a, 'sch) MCPServer
     \<Rightarrow> error option \<times> ('a, 'sch) MCPServer \<times> event list" where
  "connect env srv =
     (case stdio_client env of
        Inl e \<Rightarrow> (Some e, srv, [])
      | Inr stdio_exit \<Rightarrow>
          (let srv1 = srv\<lparr>exit_stack := (StdioTransport, stdio_exit) # exit_stack srv\<rparr> in
           case client_session env of
             Inl e \<Rightarrow> (Some e, srv1, [Entered StdioTransport])
           | Inr (sess, session_exit) \<Rightarrow>
               (let srv2 = srv1\<lparr>exit_stack := (SessionContext, session_exit) # exit_stack srv1\<rparr> in
                case initialize_result sess of
                  Some e \<Rightarrow> (Some e, srv2, [Entered StdioTransport, Entered SessionContext])
                | None \<Rightarrow>
                    (None, srv2\<lparr>session := Some sess\<rparr>,
                     [Entered StdioTransport, Entered SessionContext]))))"

text \<open>\<^verbatim>\<open>__update_tools\<close>: the tools of every item that is a pair with the key "tools".\<close>

definition update_tools ::
  "('a, 'sch) MCPServer \<Rightarrow> error option \<times> ('a, 'sch) MCPServer" where
  "update_tools srv =
     (case session srv of
        None \<Rightarrow> (Some (RuntimeError (''Server '' @ server_name srv @ '' not initialized'')), srv)
      | Some s \<Rightarrow>
          (case list_tools_result s of
             Inl e \<Rightarrow> (Some e, srv)
           | Inr tools_response \<Rightarrow>
               (None, srv\<lparr>tools :=
                  concat (map (\<lambda>item. case item of
                                  Tuple key ts \<Rightarrow> if key = ''tools'' then ts else []
                                | NotTuple \<Rightarrow> []) tools_response)\<rparr>)))"

definition initialize ::
  "('a, 'sch) environment \<Rightarrow> ('a, 'sch) MCPServer
     \<Rightarrow> error option \<times> ('a, 'sch) MCPServer \<times> event list" where
  "initialize env srv =
     (case resolve_command env (config srv) of
        Inl e \<Rightarrow> (Some e, srv, [])
      | Inr command \<Rightarrow>
          (case config srv ''args'' of
             None \<Rightarrow> (Some (KeyError ''args''), srv, [])
           | Some args \<Rightarrow>
               (case connect env srv of
                  (Some e, srv1, tr1) \<Rightarrow>
                    (case cleanup srv1 of
                       (Some e2, srv2, tr2) \<Rightarrow> (Some e2, srv2, tr1 @ tr2)
                     | (None, srv2, tr2) \<Rightarrow> (Some e, srv2, tr1 @ tr2))
                | (None, srv1, tr1) \<Rightarrow>
                    (case update_tools srv1 of (r, srv2) \<Rightarrow> (r, srv2, tr1)))))"

subsection \<open>initialize_servers\<close>

text \<open>
  The \<^verbatim>\<open>try\<close> block of the loop body: the server is created and initialised
  inside \<^verbatim>\<open>async with server.exit_stack\<close>, which unwinds the stack when the block
  is left, with the exception of the block pending.
\<close>

definition init_server ::
  "('a, 'sch) environment \<Rightarrow> string \<Rightarrow> config
     \<Rightarrow> error option \<times> ('a, 'sch) MCPServer \<times> event list" where
  "init_server env nm cfg =
     (case initialize env (new_MCPServer nm cfg) of
        (r, server, tr1) \<Rightarrow>
          (case unwind (exit_stack server) r of
             (r2, tr2) \<Rightarrow> (r2, server\<lparr>exit_stack := []\<rparr>, tr1 @ tr2)))"

text \<open>
  The loop over the items of \<^verbatim>\<open>mcpServers\<close>, in the order of the dictionary. The
  environment of a provider is looked up by its name. The events are kept with the
  name of the server they belong to.
\<close>

fun servers_loop ::
  "(string \<Rightarrow> ('a, 'sch) environment) \<Rightarrow> (string \<times> config) list
     \<Rightarrow> ('a, 'sch) MCPServer list \<Rightarrow> (string \<times> event) list
     \<Rightarrow> ('a, 'sch) MCPServer list \<times> (string \<times> event) list" where
  "servers_loop world [] servers log = (servers, log)"
| "servers_loop world ((nm, cfg) # rest) servers log =
     (if nm = [] then servers_loop world rest servers log
      else
        (case init_server (world nm) nm cfg of
           (None, server, tr) \<Rightarrow>
             servers_loop world rest (servers @ [server]) (log @ map (Pair nm) tr)
         | (Some e, server, tr) \<Rightarrow>
             servers_loop world rest servers (log @ map (Pair nm) tr)))"

definition initialize_servers ::
  "(string \<Rightarrow> ('a, 'sch) environment) \<Rightarrow> (string \<times> config) list
     \<Rightarrow> ('a, 'sch) MCPServer list \<times> (string \<times> event) list" where
  "initialize_servers world mcpServers = servers_loop world mcpServers [] []"

section \<open>The chat loop (src/app/chat/chat.py)\<close>

text \<open>
  A message is the dictionary the code builds, with the keys "role" and "content".
  The module-level variable \<^verbatim>\<open>message_history\<close> is the state: every function
  takes it and returns it updated.
\<close>

type_synonym message = "(string \<times> string) list"

datatype 'a ToolCall = ToolCall (call_name: string) (call_arguments: 'a)

record 'a LLMResponse =
  role :: string
  content :: string
  tool_calls :: "'a ToolCall list option"

definition initialize_message_history :: "string \<Rightarrow> message list" where
  "initialize_message_history system_prompt =
     [[(''role'', ''system''), (''content'', system_prompt)]]"

text \<open>
  \<^verbatim>\<open>tool.execute_tool(tool_call.arguments)\<close> on an object of the class \<^verbatim>\<open>Tool\<close>:
  the class defines \<^verbatim>\<open>__init__\<close> and \<^verbatim>\<open>validate_tool_call\<close> only, so the
  attribute lookup raises before anything is called.
\<close>

definition Tool_execute_tool :: "'sch Tool \<Rightarrow> 'a \<Rightarrow> error + string" where
  "Tool_execute_tool tool args = Inl (no_attribute ''Tool'' ''execute_tool'')"

text \<open>The inner loop \<^verbatim>\<open>for tool in tools\<close>; it has no \<^verbatim>\<open>break\<close>.\<close>

fun run_tool_call :: "'sch Tool list \<Rightarrow> 'a ToolCall \<Rightarrow> message list \<Rightarrow> message list" where
  "run_tool_call [] tool_call h = h"
| "run_tool_call (tool # rest) tool_call h =
     (if name tool = call_name tool_call then
        (case Tool_execute_tool tool (call_arguments tool_call) of
           Inr result \<Rightarrow>
             run_tool_call rest tool_call (h @ [[(''role'', ''tool''), (''content'', result)]])
         | Inl e \<Rightarrow>
             run_tool_call rest tool_call
               (h @ [[(''role'', ''tool''), (''content'', ''Error: '' @ str_of_error e)]]))
      else run_tool_call rest tool_call h)"

text \<open>
  The loop \<^verbatim>\<open>for tool_call in llm_response.tool_calls\<close>. The parameter
  \<^verbatim>\<open>tools\<close> is \<open>tool_list\<close> here, \<open>tools\<close> being a field of the server; left at
  its default \<^verbatim>\<open>None\<close> it makes the inner loop raise \<^verbatim>\<open>TypeError\<close>.
\<close>

fun run_tool_calls ::
  "'sch Tool list option \<Rightarrow> 'a ToolCall list \<Rightarrow> message list \<Rightarrow> error option \<times> message list" where
  "run_tool_calls tool_list [] h = (None, h)"
| "run_tool_calls tool_list (tool_call # rest) h =
     (case tool_list of
        None \<Rightarrow> (Some (TypeError (quoted ''NoneType'' @ '' object is not iterable'')), h)
      | Some ts \<Rightarrow> run_tool_calls tool_list rest (run_tool_call ts tool_call h))"

text \<open>
  The loop \<^verbatim>\<open>while llm_response.tool_calls\<close>. The model client is the parameter
  \<open>llm\<close>, a function of the messages and the tools. The loop runs as long as the model
  asks for tools, so its result is optional: \<open>None\<close> is a loop that never ends.
\<close>

partial_function (option) tool_loop ::
  "(message list \<Rightarrow> 'sch Tool list option \<Rightarrow> error + 'a LLMResponse) \<Rightarrow> 'sch Tool list option
     \<Rightarrow> 'a LLMResponse \<Rightarrow> message list \<Rightarrow> ((error + string) \<times> message list) option" where
  "tool_loop llm tool_list llm_response h =
     (case tool_calls llm_response of
        None \<Rightarrow> Some (Inr (content llm_response), h)
      | Some [] \<Rightarrow> Some (Inr (content llm_response), h)
      | Some (c # cs) \<Rightarrow>
          (case run_tool_calls tool_list (c # cs) h of
             (Some e, h1) \<Rightarrow> Some (Inl e, h1)
           | (None, h1) \<Rightarrow>
               (case llm h1 tool_list of
                  Inl e \<Rightarrow> Some (Inl e, h1)
                | Inr r \<Rightarrow>
                    tool_loop llm tool_list r
                      (h1 @ [[(''role'', ''assistant''), (''content'', content r)]]))))"

definition get_llm_response ::
  "(message list \<Rightarrow> 'sch Tool list option \<Rightarrow> error + 'a LLMResponse) \<Rightarrow> message list
     \<Rightarrow> string \<Rightarrow> 'sch Tool list option \<Rightarrow> ((error + string) \<times> message list) option" where
  "get_llm_response llm message_history user_input tool_list =
     (let h1 = message_history @ [[(''role'', ''user''), (''content'', user_input)]] in
      case llm h1 tool_list of
        Inl e \<Rightarrow> Some (Inl e, h1)
      | Inr r \<Rightarrow>
          tool_loop llm tool_list r (h1 @ [[(''role'', ''assistant''), (''content'', content r)]]))"

declare tool_loop.simps [code]

section \<open>The chat endpoint (src/app/main.py)\<close>

text \<open>
  The module-level variables of the process: \<^verbatim>\<open>servers\<close> and \<^verbatim>\<open>llm_client\<close> of
  main.py and \<^verbatim>\<open>message_history\<close> of chat.py. There is one of each, whatever the
  number of requests.
\<close>

record ('a, 'sch) globals =
  g_servers :: "('a, 'sch) MCPServer list"
  g_llm_client :: "(message list \<Rightarrow> 'sch Tool list option \<Rightarrow> error + 'a LLMResponse) option"
  g_message_history :: "message list"

datatype response = ChatResponse string | HTTPException nat string | Raised error

text \<open>
  \<^verbatim>\<open>complete_chat\<close>, the handler of a chat request: the tools are those of all
  servers, and the history read and written is the module-level one.
\<close>

definition complete_chat ::
  "('a, 'sch) globals \<Rightarrow> string \<Rightarrow> (response \<times> ('a, 'sch) globals) option" where
  "complete_chat g user_input =
     (case g_llm_client g of
        None \<Rightarrow> Some (HTTPException 503 ''LLM client is not available'', g)
      | Some llm \<Rightarrow>
          (case get_llm_response llm (g_message_history g) user_input
                  (Some (concat (map tools (g_servers g)))) of
             None \<Rightarrow> None
           | Some (Inl e, h) \<Rightarrow> Some (Raised e, g\<lparr>g_message_history := h\<rparr>)
           | Some (Inr llm_response, h) \<Rightarrow>
               Some (ChatResponse llm_response, g\<lparr>g_message_history := h\<rparr>)))"

text \<open>The process answering a sequence of chat requests, one after the other.\<close>

fun serve ::
  "('a, 'sch) globals \<Rightarrow> string list \<Rightarrow> (response list \<times> ('a, 'sch) globals) option" where
  "serve g [] = Some ([], g)"
| "serve g (user_input # rest) =
     (case complete_chat g user_input of
        None \<Rightarrow> None
      | Some (r, g') \<Rightarrow>
          (case serve g' rest of
             None \<Rightarrow> None
           | Some (rs, g'') \<Rightarrow> Some (r # rs, g'')))"

section \<open>Test doubles\<close>

text \<open>
  Concrete collaborators for the examples, after the fixtures of the repository's tests:
  a validator that checks required keys (arguments and schema are lists of keys), a
  JSON parser that accepts nothing, a tool, a session that fails once and then answers
  "success", and a server made ready by hand as the unit tests do.
\<close>

definition required_keys :: "string list \<Rightarrow> string list \<Rightarrow> error option" where
  "required_keys args schema =
     (case filter (\<lambda>k. k \<notin> set args) schema of
        [] \<Rightarrow> None
      | k # _ \<Rightarrow> Some (ValidationError (quoted k @ '' is a required property'')))"

definition no_json :: "string \<Rightarrow> unit option" where
  "no_json text = None"

definition weather_tool :: "string list Tool" where
  "weather_tool =
     \<lparr>name = ''get_weather'', description = ''Weather of a city'', input_schema = [''city'']\<rparr>"

definition flaky_session :: "(string list, string list) ClientSession" where
  "flaky_session =
     \<lparr>initialize_result = None,
      list_tools_result = Inr [Tuple ''meta'' [], Tuple ''tools'' [weather_tool]],
      call_tool_result =
        (\<lambda>k tool_name args.
           if k = 0 then Inl (ProviderError ''First failure'') else Inr (Plain ''success'')),
      call_count = 0\<rparr>"

definition failing_session :: "(string list, string list) ClientSession" where
  "failing_session =
     flaky_session\<lparr>call_tool_result := (\<lambda>k tool_name args. Inl (ProviderError ''down''))\<rparr>"

definition ready_server :: "(string list, string list) MCPServer" where
  "ready_server =
     \<lparr>server_name = ''test'', config = Map.empty, stdio_context = None,
      session = Some flaky_session, tools = [weather_tool], exit_stack = []\<rparr>"

definition down_server :: "(string list, string list) MCPServer" where
  "down_server = ready_server\<lparr>session := Some failing_session\<rparr>"

text \<open>Configurations and environments: one that works and one for each failing step.\<close>

definition npx_config :: config where
  "npx_config = [''command'' \<mapsto> Str ''npx'', ''args'' \<mapsto> StrList [''test-server'']]"

definition fresh_server :: "(string list, string list) MCPServer" where
  "fresh_server = new_MCPServer ''weather'' npx_config"

definition closed_server :: "(string list, string list) MCPServer" where
  "closed_server = fresh_server\<lparr>session := Some flaky_session, tools := [weather_tool]\<rparr>"

definition good_env :: "(string list, string list) environment" where
  "good_env =
     \<lparr>which_npx = Some ''/usr/bin/npx'', stdio_client = Inr None,
      client_session = Inr (flaky_session, None)\<rparr>"

definition no_npx_env :: "(string list, string list) environment" where
  "no_npx_env = good_env\<lparr>which_npx := None\<rparr>"

definition spawn_fails_env :: "(string list, string list) environment" where
  "spawn_fails_env = good_env\<lparr>stdio_client := Inl (ProviderError ''spawn failed'')\<rparr>"

definition handshake_fails_env :: "(string list, string list) environment" where
  "handshake_fails_env =
     good_env\<lparr>client_session :=
       Inr (flaky_session\<lparr>initialize_result := Some (ProviderError ''handshake failed'')\<rparr>,
            Some (ProviderError ''exit failed''))\<rparr>"

definition catalog_fails_env :: "(string list, string list) environment" where
  "catalog_fails_env =
     good_env\<lparr>client_session :=
       Inr (flaky_session\<lparr>list_tools_result := Inl (ProviderError ''no catalog'')\<rparr>, None)\<rparr>"

definition two_providers :: "(string \<times> config) list" where
  "two_providers = [(''broken'', npx_config), (''weather'', npx_config)]"

definition test_world :: "string \<Rightarrow> (string list, string list) environment" where
  "test_world nm = (if nm = ''broken'' then spawn_fails_env else good_env)"

text \<open>
  A model that asks for the tool "get_weather" when the last message is the user's
  and gives the final answer otherwise, and a model that answers at once.
\<close>

definition weather_llm ::
  "message list \<Rightarrow> string list Tool list option \<Rightarrow> error + string list LLMResponse" where
  "weather_llm h tool_list =
     (if h \<noteq> [] \<and> map_of (last h) ''role'' = Some ''user''
      then Inr \<lparr>role = ''assistant'', content = [],
                tool_calls = Some [ToolCall ''get_weather'' [''city'']]\<rparr>
      else Inr \<lparr>role = ''assistant'', content = ''It is 22C'', tool_calls = None\<rparr>)"

definition plain_llm ::
  "message list \<Rightarrow> string list Tool list option \<Rightarrow> error + string list LLMResponse" where
  "plain_llm h tool_list = Inr \<lparr>role = ''assistant'', content = ''ok'', tool_calls = None\<rparr>"

text \<open>The process after start-up, with the model that answers at once.\<close>

definition started_app :: "(string list, string list) globals" where
  "started_app =
     \<lparr>g_servers = [closed_server], g_llm_client = Some plain_llm,
      g_message_history = initialize_message_history ''You are a helpful assistant.''\<rparr>"

section \<open>Properties of execute_tool\<close>

lemma retry_loop_first_success:
  "int (a + k) < n \<Longrightarrow>
   (\<forall>j<k. \<exists>e. attempt_at jl s tn ar j = Inl e) \<Longrightarrow>
   attempt_at jl s tn ar k = Inr v \<Longrightarrow>
   retry_loop jl s tn ar n a = (Inr v, s\<lparr>call_count := call_count s + k + 1\<rparr>)"
proof (induction k arbitrary: s a)
  case 0
  then show ?case by (simp add: retry_loop.simps attempt_at_def)
next
  case (Suc k)
  let ?s' = "s\<lparr>call_count := Suc (call_count s)\<rparr>"
  from Suc.prems(2) obtain e where e: "attempt_once jl s tn ar = Inl e"
    by (auto simp: attempt_at_def dest: spec [of _ 0])
  have lt: "int a < n" "int (Suc a) < n" "int (Suc a + k) < n"
    using Suc.prems(1) by simp_all
  have fails: "\<forall>j<k. \<exists>e. attempt_at jl ?s' tn ar j = Inl e"
  proof (intro allI impI)
    fix j assume "j < k"
    then have "Suc j < Suc k" by simp
    with Suc.prems(2) show "\<exists>e. attempt_at jl ?s' tn ar j = Inl e"
      by (auto simp: attempt_at_def dest!: spec [of _ "Suc j"])
  qed
  have succ: "attempt_at jl ?s' tn ar k = Inr v"
    using Suc.prems(3) by (simp add: attempt_at_def)
  have "retry_loop jl ?s' tn ar n (Suc a) = (Inr v, ?s'\<lparr>call_count := call_count ?s' + k + 1\<rparr>)"
    by (rule Suc.IH [OF lt(3) fails succ])
  with e lt show ?case
    by (subst retry_loop.simps) simp
qed

lemma retry_loop_all_fail:
  "int a < n \<Longrightarrow>
   (\<forall>j. int (a + j) < n \<longrightarrow> (\<exists>e. attempt_at jl s tn ar j = Inl e)) \<Longrightarrow>
   retry_loop jl s tn ar n a =
     (attempt_at jl s tn ar (nat n - Suc a), s\<lparr>call_count := call_count s + (nat n - a)\<rparr>)"
proof (induction jl s tn ar n a rule: retry_loop.induct)
  case (1 jl s tn ar n a)
  let ?s' = "s\<lparr>call_count := Suc (call_count s)\<rparr>"
  from "1.prems" obtain e where e: "attempt_once jl s tn ar = Inl e"
    by (auto simp: attempt_at_def dest: spec [of _ 0])
  show ?case
  proof (cases "int (Suc a) < n")
    case False
    with "1.prems"(1) have "nat n = Suc a" by linarith
    with e False "1.prems"(1) show ?thesis
      by (subst retry_loop.simps) (simp add: attempt_at_def)
  next
    case True
    have fails: "\<forall>j. int (Suc a + j) < n \<longrightarrow> (\<exists>e. attempt_at jl ?s' tn ar j = Inl e)"
    proof (intro allI impI)
      fix j assume "int (Suc a + j) < n"
      then have "int (a + Suc j) < n" by simp
      with "1.prems"(2) show "\<exists>e. attempt_at jl ?s' tn ar j = Inl e"
        by (auto simp: attempt_at_def dest!: spec [of _ "Suc j"])
    qed
    have ih: "retry_loop jl ?s' tn ar n (Suc a) =
      (attempt_at jl ?s' tn ar (nat n - Suc (Suc a)),
       ?s'\<lparr>call_count := call_count ?s' + (nat n - Suc a)\<rparr>)"
      by (rule "1.IH" [OF "1.prems"(1) refl e True True fails])
    have a1: "Suc (call_count s) + (nat n - Suc (Suc a)) = call_count s + (nat n - Suc a)"
      using True by linarith
    have a2: "Suc (call_count s) + (nat n - Suc a) = call_count s + (nat n - a)"
      using True by linarith
    from e True "1.prems"(1) ih a1 a2 show ?thesis
      by (subst retry_loop.simps) (simp add: attempt_at_def)
  qed
qed

lemma retry_loop_calls_le:
  "call_count (snd (retry_loop jl s tn ar n a)) \<le> call_count s + (nat n - a)"
proof (induction jl s tn ar n a rule: retry_loop.induct)
  case (1 jl s tn ar n a)
  show ?case
  proof (cases "int a < n")
    case False
    then show ?thesis by (subst retry_loop.simps) simp
  next
    case a: True
    show ?thesis
    proof (cases "attempt_once jl s tn ar")
      case (Inr v)
      with a show ?thesis by (subst retry_loop.simps) auto
    next
      case (Inl e)
      show ?thesis
      proof (cases "int (Suc a) < n")
        case False
        with a Inl show ?thesis by (subst retry_loop.simps) auto
      next
        case True
        from "1.IH" [OF a refl Inl True]
        have "call_count (snd (retry_loop jl (s\<lparr>call_count := Suc (call_count s)\<rparr>) tn ar n (Suc a)))
                \<le> Suc (call_count s) + (nat n - Suc a)" by simp
        with a Inl True show ?thesis by (subst retry_loop.simps) auto
      qed
    qed
  qed
qed

lemma execute_tool_valid:
  assumes "session srv = Some s"
    and "find (\<lambda>t. name t = tool_name) (tools srv) = Some tool"
    and "validate_tool_call validate tool args = None"
  shows "execute_tool validate json_loads srv tool_name args n =
           (fst (retry_loop json_loads s tool_name args n 0),
            srv\<lparr>session := Some (snd (retry_loop json_loads s tool_name args n 0))\<rparr>)"
  using assms by (simp add: execute_tool_def split: prod.splits)

text \<open>
  C4. With a ready server, a known tool and valid args, \<open>execute_tool\<close> with
  \<open>n \<ge> 1\<close> attempts calls the provider at most \<open>n\<close> times; if attempt \<open>k < n\<close> is the
  first that succeeds, its value is returned after \<open>k + 1\<close> calls; if all \<open>n\<close> attempts
  fail, the failure of the last one is raised after exactly \<open>n\<close> calls.
\<close>

theorem execute_tool_retries:
  assumes "session srv = Some s"
    and "find (\<lambda>t. name t = tool_name) (tools srv) = Some tool"
    and "validate_tool_call validate tool args = None"
    and "1 \<le> n"
  shows "provider_calls (snd (execute_tool validate json_loads srv tool_name args n))
           \<le> provider_calls srv + nat n
       \<and> (\<forall>k v. int k < n
             \<and> (\<forall>j<k. \<exists>e. attempt_at json_loads s tool_name args j = Inl e)
             \<and> attempt_at json_loads s tool_name args k = Inr v
           \<longrightarrow> execute_tool validate json_loads srv tool_name args n =
                 (Inr v, srv\<lparr>session := Some (s\<lparr>call_count := call_count s + k + 1\<rparr>)\<rparr>))
       \<and> ((\<forall>j. int j < n \<longrightarrow> (\<exists>e. attempt_at json_loads s tool_name args j = Inl e))
           \<longrightarrow> execute_tool validate json_loads srv tool_name args n =
                 (attempt_at json_loads s tool_name args (nat n - 1),
                  srv\<lparr>session := Some (s\<lparr>call_count := call_count s + nat n\<rparr>)\<rparr>))"
proof (intro conjI allI impI)
  note ex = execute_tool_valid [OF assms(1-3), of json_loads n]
  show "provider_calls (snd (execute_tool validate json_loads srv tool_name args n))
          \<le> provider_calls srv + nat n"
    using retry_loop_calls_le [of json_loads s tool_name args n 0] assms(1)
    by (simp add: ex provider_calls_def)
next
  fix k v
  assume h: "int k < n
     \<and> (\<forall>j<k. \<exists>e. attempt_at json_loads s tool_name args j = Inl e)
     \<and> attempt_at json_loads s tool_name args k = Inr v"
  then have "retry_loop json_loads s tool_name args n 0 =
               (Inr v, s\<lparr>call_count := call_count s + k + 1\<rparr>)"
    by (intro retry_loop_first_success) simp_all
  then show "execute_tool validate json_loads srv tool_name args n =
               (Inr v, srv\<lparr>session := Some (s\<lparr>call_count := call_count s + k + 1\<rparr>)\<rparr>)"
    by (simp add: execute_tool_valid [OF assms(1-3)])
next
  assume h: "\<forall>j. int j < n \<longrightarrow> (\<exists>e. attempt_at json_loads s tool_name args j = Inl e)"
  have "retry_loop json_loads s tool_name args n 0 =
          (attempt_at json_loads s tool_name args (nat n - Suc 0),
           s\<lparr>call_count := call_count s + (nat n - 0)\<rparr>)"
    using assms(4) h by (intro retry_loop_all_fail) simp_all
  then show "execute_tool validate json_loads srv tool_name args n =
               (attempt_at json_loads s tool_name args (nat n - 1),
                srv\<lparr>session := Some (s\<lparr>call_count := call_count s + nat n\<rparr>)\<rparr>)"
    by (simp add: execute_tool_valid [OF assms(1-3)])
qed

lemma ready_server_facts:
  "session ready_server = Some flaky_session"
  "find (\<lambda>t. name t = ''get_weather'') (tools ready_server) = Some weather_tool"
  "validate_tool_call required_keys weather_tool [''city''] = None"
  by (simp_all add: ready_server_def weather_tool_def validate_tool_call_def required_keys_def)

lemma flaky_attempts:
  "attempt_at no_json flaky_session ''get_weather'' [''city''] 0 = Inl (ProviderError ''First failure'')"
  "attempt_at no_json flaky_session ''get_weather'' [''city''] (Suc 0) = Inr (Result (Plain ''success''))"
  by (simp_all add: attempt_at_def attempt_once_def flaky_session_def extract_content_def)

lemma down_server_facts:
  "session down_server = Some failing_session"
  "find (\<lambda>t. name t = ''get_weather'') (tools down_server) = Some weather_tool"
  "validate_tool_call required_keys weather_tool [''city''] = None"
  by (simp_all add: down_server_def ready_server_def weather_tool_def validate_tool_call_def
        required_keys_def)

lemma failing_attempts:
  "attempt_at no_json failing_session ''get_weather'' [''city''] 0 = Inl (ProviderError ''down'')"
  "attempt_at no_json failing_session ''get_weather'' [''city''] (Suc 0) = Inl (ProviderError ''down'')"
  by (simp_all add: attempt_at_def attempt_once_def failing_session_def)

theorem execute_tool_retries_witness:
  "session ready_server = Some flaky_session
   \<and> find (\<lambda>t. name t = ''get_weather'') (tools ready_server) = Some weather_tool
   \<and> validate_tool_call required_keys weather_tool [''city''] = None
   \<and> (1::int) \<le> 2
   \<and> attempt_at no_json flaky_session ''get_weather'' [''city''] 0 = Inl (ProviderError ''First failure'')
   \<and> attempt_at no_json flaky_session ''get_weather'' [''city''] 1 = Inr (Result (Plain ''success''))
   \<and> execute_tool required_keys no_json ready_server ''get_weather'' [''city''] 2 =
       (Inr (Result (Plain ''success'')),
        ready_server\<lparr>session := Some (flaky_session\<lparr>call_count := 2\<rparr>)\<rparr>)
   \<and> provider_calls (snd (execute_tool required_keys no_json ready_server ''get_weather'' [''city''] 2))
       \<le> provider_calls ready_server + 2
   \<and> session down_server = Some failing_session
   \<and> find (\<lambda>t. name t = ''get_weather'') (tools down_server) = Some weather_tool
   \<and> attempt_at no_json failing_session ''get_weather'' [''city''] 0 = Inl (ProviderError ''down'')
   \<and> attempt_at no_json failing_session ''get_weather'' [''city''] 1 = Inl (ProviderError ''down'')
   \<and> execute_tool required_keys no_json down_server ''get_weather'' [''city''] 2 =
       (Inl (ProviderError ''down''),
        down_server\<lparr>session := Some (failing_session\<lparr>call_count := 2\<rparr>)\<rparr>)"
proof -
  have n: "(1::int) \<le> 2" by simp
  note t = execute_tool_retries [OF ready_server_facts n, of no_json]
  from t have "\<forall>k v. int k < 2
             \<and> (\<forall>j<k. \<exists>e. attempt_at no_json flaky_session ''get_weather'' [''city''] j = Inl e)
             \<and> attempt_at no_json flaky_session ''get_weather'' [''city''] k = Inr v
           \<longrightarrow> execute_tool required_keys no_json ready_server ''get_weather'' [''city''] 2 =
                 (Inr v, ready_server\<lparr>session := Some (flaky_session\<lparr>call_count := call_count flaky_session + k + 1\<rparr>)\<rparr>)"
    by blast
  then have "execute_tool required_keys no_json ready_server ''get_weather'' [''city''] 2 =
         (Inr (Result (Plain ''success'')),
          ready_server\<lparr>session := Some (flaky_session\<lparr>call_count := call_count flaky_session + 1 + 1\<rparr>)\<rparr>)"
    using flaky_attempts by (auto dest!: spec [of _ "Suc 0"])
  moreover have "call_count flaky_session + 1 + 1 = 2" by (simp add: flaky_session_def)
  ultimately have ok: "execute_tool required_keys no_json ready_server ''get_weather'' [''city''] 2 =
       (Inr (Result (Plain ''success'')),
        ready_server\<lparr>session := Some (flaky_session\<lparr>call_count := 2\<rparr>)\<rparr>)" by simp
  from t have le: "provider_calls (snd (execute_tool required_keys no_json ready_server ''get_weather'' [''city''] 2))
       \<le> provider_calls ready_server + 2" by simp
  note d = execute_tool_retries [OF down_server_facts n, of no_json]
  have fails: "\<forall>j. int j < 2 \<longrightarrow>
      (\<exists>e. attempt_at no_json failing_session ''get_weather'' [''city''] j = Inl e)"
    by (simp add: attempt_at_def attempt_once_def failing_session_def)
  from d fails have "execute_tool required_keys no_json down_server ''get_weather'' [''city''] 2 =
       (attempt_at no_json failing_session ''get_weather'' [''city''] (nat 2 - 1),
        down_server\<lparr>session := Some (failing_session\<lparr>call_count := call_count failing_session + nat 2\<rparr>)\<rparr>)"
    by blast
  moreover have "call_count failing_session + nat 2 = 2"
    by (simp add: failing_session_def flaky_session_def)
  ultimately have bad: "execute_tool required_keys no_json down_server ''get_weather'' [''city''] 2 =
       (Inl (ProviderError ''down''),
        down_server\<lparr>session := Some (failing_session\<lparr>call_count := 2\<rparr>)\<rparr>)"
    using failing_attempts by simp
  from ready_server_facts flaky_attempts ok le down_server_facts(1,2) failing_attempts bad
  show ?thesis by simp
qed

text \<open>
  C5. When the arguments fail validation against the schema of the tool, the
  validation error is raised at once: the server and its session are unchanged, so
  the provider has not been called, whatever the number of retries.
\<close>

theorem execute_tool_validation_failure:
  assumes "session srv = Some s"
    and "find (\<lambda>t. name t = tool_name) (tools srv) = Some tool"
    and "validate_tool_call validate tool args = Some e"
  shows "execute_tool validate json_loads srv tool_name args retries = (Inl e, srv)
       \<and> provider_calls (snd (execute_tool validate json_loads srv tool_name args retries))
           = provider_calls srv"
  using assms by (simp add: execute_tool_def)

theorem execute_tool_validation_failure_witness:
  "session ready_server = Some flaky_session
   \<and> find (\<lambda>t. name t = ''get_weather'') (tools ready_server) = Some weather_tool
   \<and> validate_tool_call required_keys weather_tool []
       = Some (ValidationError (quoted ''city'' @ '' is a required property''))
   \<and> execute_tool required_keys no_json ready_server ''get_weather'' [] 2
       = (Inl (ValidationError (quoted ''city'' @ '' is a required property'')), ready_server)
   \<and> provider_calls (snd (execute_tool required_keys no_json ready_server ''get_weather'' [] 2)) = 0"
proof -
  have v: "validate_tool_call required_keys weather_tool []
             = Some (ValidationError (quoted ''city'' @ '' is a required property''))"
    by (simp add: validate_tool_call_def required_keys_def weather_tool_def)
  have z: "provider_calls ready_server = 0"
    by (simp add: provider_calls_def ready_server_def flaky_session_def)
  from execute_tool_validation_failure [OF ready_server_facts(1,2) v, of no_json 2]
       ready_server_facts(1,2) v z
  show ?thesis by simp
qed

text \<open>
  C6. On a server with a session, a tool name that is not in the catalog makes
  \<open>execute_tool\<close> raise the "not found" \<^verbatim>\<open>ValueError\<close>; the server and its session
  are unchanged, so the provider has not been called.
\<close>

theorem execute_tool_unknown_tool:
  assumes "session srv = Some s"
    and "tool_name \<notin> name ` set (tools srv)"
  shows "execute_tool validate json_loads srv tool_name args retries =
           (Inl (ValueError (''Tool '' @ tool_name @ '' not found in server ''
                              @ server_name srv @ '' tools.'')), srv)
       \<and> provider_calls (snd (execute_tool validate json_loads srv tool_name args retries))
           = provider_calls srv"
proof -
  from assms(2) have "find (\<lambda>t. name t = tool_name) (tools srv) = None"
    by (auto simp: find_None_iff)
  with assms(1) show ?thesis by (simp add: execute_tool_def)
qed

theorem execute_tool_unknown_tool_witness:
  "session ready_server = Some flaky_session
   \<and> ''get_time'' \<notin> name ` set (tools ready_server)
   \<and> execute_tool required_keys no_json ready_server ''get_time'' [''city''] 2
       = (Inl (ValueError ''Tool get_time not found in server test tools.''), ready_server)
   \<and> provider_calls (snd (execute_tool required_keys no_json ready_server ''get_time'' [''city''] 2)) = 0"
proof -
  have u: "''get_time'' \<notin> name ` set (tools ready_server)"
    by (simp add: ready_server_def weather_tool_def)
  have z: "provider_calls ready_server = 0" "server_name ready_server = ''test''"
    by (simp_all add: provider_calls_def ready_server_def flaky_session_def)
  from execute_tool_unknown_tool [OF ready_server_facts(1) u, of required_keys no_json "[''city'']" 2]
       ready_server_facts(1) u z
  show ?thesis by simp
qed

text \<open>
  C10. With a ready server, a known tool and valid arguments, \<open>execute_tool\<close> with
  \<open>retries \<le> 0\<close> raises nothing and returns \<^verbatim>\<open>None\<close>; the server and its session are
  unchanged, so the provider has not been called.
\<close>

theorem execute_tool_nonpositive_retries:
  assumes "session srv = Some s"
    and "find (\<lambda>t. name t = tool_name) (tools srv) = Some tool"
    and "validate_tool_call validate tool args = None"
    and "retries \<le> 0"
  shows "execute_tool validate json_loads srv tool_name args retries = (Inr PyNone, srv)
       \<and> provider_calls (snd (execute_tool validate json_loads srv tool_name args retries))
           = provider_calls srv"
  using assms by (simp add: execute_tool_def retry_loop.simps provider_calls_def)

theorem execute_tool_nonpositive_retries_witness:
  "session ready_server = Some flaky_session
   \<and> find (\<lambda>t. name t = ''get_weather'') (tools ready_server) = Some weather_tool
   \<and> validate_tool_call required_keys weather_tool [''city''] = None
   \<and> (0::int) \<le> 0
   \<and> execute_tool required_keys no_json ready_server ''get_weather'' [''city''] 0
       = (Inr PyNone, ready_server)
   \<and> provider_calls (snd (execute_tool required_keys no_json ready_server ''get_weather'' [''city''] 0)) = 0"
proof -
  have n: "(0::int) \<le> 0" by simp
  have z: "provider_calls ready_server = 0"
    by (simp add: provider_calls_def ready_server_def flaky_session_def)
  from execute_tool_nonpositive_retries [OF ready_server_facts n, of no_json] ready_server_facts z
  show ?thesis by simp
qed

section \<open>Properties of cleanup and initialize\<close>

lemma unwind_pending: "fst (unwind st (Some e)) \<noteq> None"
  by (induction st arbitrary: e) (auto simp: split_beta split: option.splits)

lemma unwind_events: "snd (unwind st pending) = map (\<lambda>(r, x). Exited r) st"
  by (induction st arbitrary: pending) (auto simp: split_beta)





lemma connect_failure_cases:
  "fst (connect env srv) = Some e \<longleftrightarrow>
     stdio_client env = Inl e
     \<or> (\<exists>x. stdio_client env = Inr x
          \<and> (client_session env = Inl e
             \<or> (\<exists>s y. client_session env = Inr (s, y) \<and> initialize_result s = Some e)))"
  by (auto simp: connect_def Let_def split: sum.splits prod.splits option.splits)



lemmas lifecycle_defs =
  initialize_def resolve_command_def connect_def update_tools_def cleanup_def
  new_MCPServer_def fresh_server_def npx_config_def good_env_def no_npx_env_def spawn_fails_env_def
  handshake_fails_env_def catalog_fails_env_def flaky_session_def



section \<open>Properties of initialize_servers\<close>

lemma servers_loop_acc:
  "servers_loop world items servers log =
     (servers @ fst (servers_loop world items [] []), log @ snd (servers_loop world items [] []))"
proof (induction items arbitrary: servers log)
  case Nil
  then show ?case by simp
next
  case (Cons p items)
  obtain nm cfg where p: "p = (nm, cfg)" by (cases p)
  obtain r server tr where i: "init_server (world nm) nm cfg = (r, server, tr)"
    by (cases "init_server (world nm) nm cfg")
  show ?case
  proof (cases "nm = []")
    case True
    with p Cons.IH [of servers log] show ?thesis by simp
  next
    case False
    show ?thesis
    proof (cases r)
      case None
      with False p i Cons.IH [of "servers @ [server]" "log @ map (Pair nm) tr"]
           Cons.IH [of "[server]" "map (Pair nm) tr"]
      show ?thesis by simp
    next
      case (Some e)
      with False p i Cons.IH [of servers "log @ map (Pair nm) tr"]
           Cons.IH [of "[]" "map (Pair nm) tr"]
      show ?thesis by simp
    qed
  qed
qed

lemma initialize_servers_Nil: "initialize_servers world [] = ([], [])"
  by (simp add: initialize_servers_def)

lemma initialize_servers_Cons:
  "initialize_servers world ((nm, cfg) # items) =
     (let (r, server, tr) = init_server (world nm) nm cfg;
          (servers, log) = initialize_servers world items
      in if nm = [] then (servers, log)
         else if r = None then (server # servers, map (Pair nm) tr @ log)
         else (servers, map (Pair nm) tr @ log))"
proof -
  obtain r server tr where i: "init_server (world nm) nm cfg = (r, server, tr)"
    by (cases "init_server (world nm) nm cfg")
  show ?thesis
  proof (cases r)
    case None
    with i servers_loop_acc [of world items "[server]" "map (Pair nm) tr"]
    show ?thesis by (simp add: initialize_servers_def split_beta)
  next
    case (Some e)
    with i servers_loop_acc [of world items "[]" "map (Pair nm) tr"]
    show ?thesis by (simp add: initialize_servers_def split_beta)
  qed
qed



lemma connect_success:
  "connect env srv = (None, srv1, tr1) \<Longrightarrow>
   \<exists>x y sess. srv1 = srv\<lparr>exit_stack := (SessionContext, y) # (StdioTransport, x) # exit_stack srv,
                           session := Some sess\<rparr>
     \<and> tr1 = [Entered StdioTransport, Entered SessionContext]"
  by (auto simp: connect_def Let_def split: sum.splits prod.splits option.splits)

lemma update_tools_success:
  "update_tools srv = (None, srv') \<Longrightarrow> \<exists>ts. srv' = srv\<lparr>tools := ts\<rparr>"
  by (auto simp: update_tools_def split: sum.splits option.splits)

lemma initialize_success:
  assumes "initialize env srv = (None, srv', tr)"
  shows "(\<exists>x y. exit_stack srv' = (SessionContext, y) # (StdioTransport, x) # exit_stack srv)
         \<and> server_name srv' = server_name srv \<and> session srv' \<noteq> None
         \<and> tr = [Entered StdioTransport, Entered SessionContext]"
proof -
  from assms obtain srv1 where c: "connect env srv = (None, srv1, tr)"
    and u: "update_tools srv1 = (None, srv')"
    by (auto simp: initialize_def split: sum.splits option.splits prod.splits)
  from connect_success [OF c] update_tools_success [OF u] show ?thesis by auto
qed

lemma init_server_success:
  assumes "init_server env nm cfg = (None, server, tr)"
  shows "exit_stack server = [] \<and> server_name server = nm \<and> session server \<noteq> None
         \<and> tr = [Entered StdioTransport, Entered SessionContext,
                 Exited SessionContext, Exited StdioTransport]"
proof -
  obtain r server1 tr1 where i: "initialize env (new_MCPServer nm cfg) = (r, server1, tr1)"
    by (cases "initialize env (new_MCPServer nm cfg)")
  with assms have u: "fst (unwind (exit_stack server1) r) = None"
    and s: "server = server1\<lparr>exit_stack := []\<rparr>"
    and t: "tr = tr1 @ snd (unwind (exit_stack server1) r)"
    by (auto simp: init_server_def split: prod.splits)
  from u unwind_pending have "r = None" by (cases r) auto
  with i have "initialize env (new_MCPServer nm cfg) = (None, server1, tr1)" by simp
  from initialize_success [OF this] obtain x y where
    e1: "exit_stack server1 = [(SessionContext, y), (StdioTransport, x)]"
    and n1: "server_name server1 = nm" and ss1: "session server1 \<noteq> None"
    and t1: "tr1 = [Entered StdioTransport, Entered SessionContext]"
    by (auto simp: new_MCPServer_def)
  from s e1 n1 ss1 t t1 show ?thesis by (simp add: unwind_events)
qed


lemmas servers_defs =
  initialize_servers_def init_server_def test_world_def two_providers_def


lemma initialize_servers_member:
  "srv \<in> set (fst (initialize_servers w items)) \<Longrightarrow>
   \<exists>nm cfg tr. (nm, cfg) \<in> set items \<and> init_server (w nm) nm cfg = (None, srv, tr)
     \<and> Pair nm ` set tr \<subseteq> set (snd (initialize_servers w items))"
proof (induction items)
  case Nil
  then show ?case by (simp add: initialize_servers_Nil)
next
  case (Cons p items)
  obtain nm cfg where p: "p = (nm, cfg)" by (cases p)
  obtain r server tr where i: "init_server (w nm) nm cfg = (r, server, tr)"
    by (cases "init_server (w nm) nm cfg")
  show ?case
  proof (cases "nm \<noteq> [] \<and> r = None \<and> srv = server")
    case True
    with p i have "(nm, cfg) \<in> set (p # items)" "init_server (w nm) nm cfg = (None, srv, tr)"
      "Pair nm ` set tr \<subseteq> set (snd (initialize_servers w (p # items)))"
      by (auto simp: initialize_servers_Cons split_beta)
    then show ?thesis by blast
  next
    case False
    with Cons.prems p i have "srv \<in> set (fst (initialize_servers w items))"
      by (auto simp: initialize_servers_Cons split_beta split: if_splits)
    from Cons.IH [OF this] obtain nm' cfg' tr' where
      "(nm', cfg') \<in> set items" "init_server (w nm') nm' cfg' = (None, srv, tr')"
      "Pair nm' ` set tr' \<subseteq> set (snd (initialize_servers w items))" by blast
    moreover have "set (snd (initialize_servers w items)) \<subseteq> set (snd (initialize_servers w (p # items)))"
      using p by (auto simp: initialize_servers_Cons split_beta)
    ultimately have "(nm', cfg') \<in> set (p # items)" "init_server (w nm') nm' cfg' = (None, srv, tr')"
      "Pair nm' ` set tr' \<subseteq> set (snd (initialize_servers w (p # items)))" by auto
    then show ?thesis by blast
  qed
qed

text \<open>
  C9. Every server in the list \<open>initialize_servers\<close> returns has an empty exit stack,
  and the exits of its session context and of its transport are among the events
  of the call, although its session is still set.
\<close>

theorem initialize_servers_closes_exit_stack:
  assumes "srv \<in> set (fst (initialize_servers w items))"
  shows "exit_stack srv = [] \<and> session srv \<noteq> None
       \<and> (server_name srv, Exited SessionContext) \<in> set (snd (initialize_servers w items))
       \<and> (server_name srv, Exited StdioTransport) \<in> set (snd (initialize_servers w items))"
proof -
  from initialize_servers_member [OF assms] obtain nm cfg tr where
    i: "init_server (w nm) nm cfg = (None, srv, tr)"
    and l: "Pair nm ` set tr \<subseteq> set (snd (initialize_servers w items))" by blast
  from init_server_success [OF i] l show ?thesis by auto
qed

theorem initialize_servers_closes_exit_stack_witness:
  "closed_server \<in> set (fst (initialize_servers test_world two_providers))
   \<and> exit_stack closed_server = [] \<and> session closed_server \<noteq> None
   \<and> (''weather'', Exited SessionContext) \<in> set (snd (initialize_servers test_world two_providers))
   \<and> (''weather'', Exited StdioTransport) \<in> set (snd (initialize_servers test_world two_providers))"
proof -
  have m: "closed_server \<in> set (fst (initialize_servers test_world two_providers))"
    by (simp add: lifecycle_defs servers_defs closed_server_def)
  have n: "server_name closed_server = ''weather''"
    by (simp add: closed_server_def fresh_server_def new_MCPServer_def)
  from initialize_servers_closes_exit_stack [OF m] m n show ?thesis by simp
qed

section \<open>Properties of the chat loop\<close>

lemma run_tool_call_prefix: "prefix h (run_tool_call ts c h)"
proof (induction ts arbitrary: h)
  case Nil
  then show ?case by simp
next
  case (Cons t ts)
  have "\<And>m. prefix h (run_tool_call ts c (h @ [m]))"
    using Cons.IH append_prefixD by blast
  with Cons.IH show ?case by (simp split: sum.splits)
qed

lemma run_tool_calls_prefix: "prefix h (snd (run_tool_calls tls cs h))"
proof (induction cs arbitrary: h)
  case Nil
  then show ?case by simp
next
  case (Cons c cs)
  show ?case
  proof (cases tls)
    case None
    then show ?thesis by simp
  next
    case (Some ts)
    have "prefix h (run_tool_call ts c h)" by (rule run_tool_call_prefix)
    moreover have "prefix (run_tool_call ts c h) (snd (run_tool_calls tls cs (run_tool_call ts c h)))"
      by (rule Cons.IH)
    ultimately show ?thesis using Some by (auto intro: prefix_order.order_trans)
  qed
qed

lemma tool_loop_prefix:
  assumes "tool_loop llm tls r h = Some y"
  shows "prefix h (snd y)"
proof (rule tool_loop.raw_induct [where P = "\<lambda>llm tls r h y. prefix h (snd y)", OF _ assms],
       goal_cases)
  case (1 f llm tls r h y)
  note IH = 1(1) and body = 1(2)
  show ?case
  proof (cases "tool_calls r")
    case None
    with body show ?thesis by auto
  next
    case (Some calls)
    show ?thesis
    proof (cases calls)
      case Nil
      with Some body show ?thesis by auto
    next
      case (Cons c cs)
      obtain e h1 where rc: "run_tool_calls tls (c # cs) h = (e, h1)"
        by (cases "run_tool_calls tls (c # cs) h")
      have p1: "prefix h h1" using run_tool_calls_prefix [of h tls "c # cs"] rc by simp
      show ?thesis
      proof (cases e)
        case (Some err)
        with \<open>tool_calls r = Some calls\<close> Cons rc body p1 show ?thesis by auto
      next
        case None
        show ?thesis
        proof (cases "llm h1 tls")
          case (Inl err)
          with None \<open>tool_calls r = Some calls\<close> Cons rc body p1 show ?thesis by auto
        next
          case (Inr r')
          with None \<open>tool_calls r = Some calls\<close> Cons rc body
          have "f llm tls r' (h1 @ [[(''role'', ''assistant''), (''content'', content r')]]) = Some y"
            by simp
          from IH [OF this]
          have "prefix (h1 @ [[(''role'', ''assistant''), (''content'', content r')]]) (snd y)" .
          then have "prefix h1 (snd y)" by (rule append_prefixD)
          with p1 show ?thesis by (rule prefix_order.order_trans)
        qed
      qed
    qed
  qed
qed


lemma get_llm_response_prefix:
  assumes "get_llm_response llm h user_input tls = Some y"
  shows "prefix (h @ [[(''role'', ''user''), (''content'', user_input)]]) (snd y)"
proof (cases "llm (h @ [[(''role'', ''user''), (''content'', user_input)]]) tls")
  case (Inl e)
  with assms show ?thesis by (auto simp: get_llm_response_def)
next
  case (Inr r)
  with assms have "tool_loop llm tls r
      ((h @ [[(''role'', ''user''), (''content'', user_input)]])
         @ [[(''role'', ''assistant''), (''content'', content r)]]) = Some y"
    by (simp add: get_llm_response_def)
  from tool_loop_prefix [OF this] show ?thesis by (rule append_prefixD)
qed

lemma run_tool_call_messages:
  "run_tool_call ts c h =
     h @ replicate (length (filter (\<lambda>t. name t = call_name c) ts))
           [(''role'', ''tool''),
            (''content'', ''Error: '' @ str_of_error (no_attribute ''Tool'' ''execute_tool''))]"
  by (induction ts arbitrary: h) (simp_all add: Tool_execute_tool_def replicate_append_same)

text \<open>
  C1. With the tool "get_weather" in the tool list, a model that asks for it once and
  then answers "It is 22C": the answer is returned and the history has the user
  message, the first assistant message, one tool message and the final assistant
  message, in this order; the tool message holds the text of the \<^verbatim>\<open>AttributeError\<close>
  raised by the lookup of \<^verbatim>\<open>execute_tool\<close> on the tool, not a result of the tool.
\<close>

theorem get_llm_response_tool_message:
  "get_llm_response weather_llm (initialize_message_history ''sys'') ''Weather in Paris?''
     (Some [weather_tool])
   = Some (Inr ''It is 22C'',
       [[(''role'', ''system''), (''content'', ''sys'')],
        [(''role'', ''user''), (''content'', ''Weather in Paris?'')],
        [(''role'', ''assistant''), (''content'', [])],
        [(''role'', ''tool''),
         (''content'', ''Error: '' @ quoted ''Tool'' @ '' object has no attribute ''
                        @ quoted ''execute_tool'')],
        [(''role'', ''assistant''), (''content'', ''It is 22C'')]])"
  by code_simp

text \<open>
  C2, as the code has it. The history is the one module-level list: a chat request
  that returns leaves a history that begins with the history it found, followed by
  its own user message when a model client is set. Nothing is removed or reordered,
  so a later conversation's history holds the earlier conversations' messages.
\<close>

theorem complete_chat_extends_history:
  assumes "complete_chat g user_input = Some (r, g')"
  shows "prefix (g_message_history g) (g_message_history g')
       \<and> (g_llm_client g \<noteq> None \<longrightarrow>
            prefix (g_message_history g @ [[(''role'', ''user''), (''content'', user_input)]])
                   (g_message_history g'))"
proof (cases "g_llm_client g")
  case None
  with assms show ?thesis by (auto simp: complete_chat_def)
next
  case (Some llm)
  from assms Some obtain x h where
    y: "get_llm_response llm (g_message_history g) user_input
          (Some (concat (map tools (g_servers g)))) = Some (x, h)"
    and g': "g_message_history g' = h"
    by (auto simp: complete_chat_def split: option.splits sum.splits)
  from get_llm_response_prefix [OF y] g'
  have p: "prefix (g_message_history g @ [[(''role'', ''user''), (''content'', user_input)]])
             (g_message_history g')" by simp
  then have "prefix (g_message_history g) (g_message_history g')" by (rule append_prefixD)
  with p show ?thesis by simp
qed

theorem complete_chat_extends_history_witness:
  "complete_chat started_app ''alpha''
     = Some (ChatResponse ''ok'',
         started_app\<lparr>g_message_history :=
           [[(''role'', ''system''), (''content'', ''You are a helpful assistant.'')],
            [(''role'', ''user''), (''content'', ''alpha'')],
            [(''role'', ''assistant''), (''content'', ''ok'')]]\<rparr>)
   \<and> g_llm_client started_app \<noteq> None
   \<and> prefix (g_message_history started_app)
        [[(''role'', ''system''), (''content'', ''You are a helpful assistant.'')],
         [(''role'', ''user''), (''content'', ''alpha'')],
         [(''role'', ''assistant''), (''content'', ''ok'')]]
   \<and> prefix (g_message_history started_app @ [[(''role'', ''user''), (''content'', ''alpha'')]])
        [[(''role'', ''system''), (''content'', ''You are a helpful assistant.'')],
         [(''role'', ''user''), (''content'', ''alpha'')],
         [(''role'', ''assistant''), (''content'', ''ok'')]]"
proof -
  have c: "complete_chat started_app ''alpha''
     = Some (ChatResponse ''ok'',
         started_app\<lparr>g_message_history :=
           [[(''role'', ''system''), (''content'', ''You are a helpful assistant.'')],
            [(''role'', ''user''), (''content'', ''alpha'')],
            [(''role'', ''assistant''), (''content'', ''ok'')]]\<rparr>)"
    by (simp add: complete_chat_def started_app_def get_llm_response_def plain_llm_def
          initialize_message_history_def tool_loop.simps)
  have l: "g_llm_client started_app \<noteq> None" by (simp add: started_app_def)
  from complete_chat_extends_history [OF c] c l show ?thesis by simp
qed

theorem shared_history_counterexample:
  "serve started_app [''alpha'', ''beta'']
     = Some ([ChatResponse ''ok'', ChatResponse ''ok''],
         started_app\<lparr>g_message_history :=
           [[(''role'', ''system''), (''content'', ''You are a helpful assistant.'')],
            [(''role'', ''user''), (''content'', ''alpha'')],
            [(''role'', ''assistant''), (''content'', ''ok'')],
            [(''role'', ''user''), (''content'', ''beta'')],
            [(''role'', ''assistant''), (''content'', ''ok'')]]\<rparr>)"
  by (simp add: complete_chat_def started_app_def get_llm_response_def plain_llm_def
        initialize_message_history_def tool_loop.simps)

end
